theory Spec2Isabelle
  imports Main
begin

section \<open>The host runtime, as far as the class observes it\<close>

text \<open>
  \<^verbatim>\<open>src/index.ts\<close> is one class, \<^verbatim>\<open>CatsaJanga<T>\<close>, over four services of the
  host: the file system (\<^verbatim>\<open>fs.stat\<close>, \<^verbatim>\<open>fs.readFile\<close>, \<^verbatim>\<open>fs.writeFile\<close>), the JSON
  codec (\<^verbatim>\<open>JSON.stringify\<close>, \<^verbatim>\<open>JSON.parse\<close>), the caller's logger, and the process
  object (\<^verbatim>\<open>process.on\<close>, \<^verbatim>\<open>process.exit\<close>). The class is translated function by
  function; the services are modelled by the outcomes the class distinguishes.

  A thrown value is an error object with a name and a message. A template literal
  \<^verbatim>\<open>${error}\<close> renders it with \<^verbatim>\<open>Error.prototype.toString\<close>.
\<close>

type_synonym path = string

datatype js_error = JsError (err_name: string) (err_message: string)

definition error_toString :: "js_error \<Rightarrow> string" where
  "error_toString e =
     (if err_name e = [] then err_message e
      else if err_message e = [] then err_name e
      else err_name e @ '': '' @ err_message e)"

subsection \<open>File system\<close>

text \<open>
  A path holds nothing, a regular file with its text, or a directory. Independently the
  environment may refuse every access to a path (\<open>faults\<close>: permission denied on the
  way to it, a missing parent directory, an I/O error); the refusal is the error the
  promise is rejected with. A write replaces the whole text, as \<^verbatim>\<open>fs.writeFile\<close> does
  with its default flag. A data argument that is \<^verbatim>\<open>undefined\<close> (what
  \<^verbatim>\<open>JSON.stringify\<close> returns for a value with no JSON form) is rejected with a
  \<^verbatim>\<open>TypeError\<close> before anything is opened. A failed write leaves the disk as it
  was (it fails when the file is opened).

  A regular file may also withhold reading, writing or both from the process by its
  mode (\<open>Restricted\<close>: read-only as with mode 0400, write-only as with 0200, no access
  as with 000). Such a file is still seen by \<^verbatim>\<open>fs.stat\<close>; the operation its mode
  withholds is rejected with \<^verbatim>\<open>EACCES\<close>. A write keeps the mode of a file that exists
  and creates a readable and writable one where there was none.
\<close>

datatype access = ReadOnly | WriteOnly | NoAccess

datatype node = File string | Directory | Restricted access string

record filesystem =
  nodes :: "path \<Rightarrow> node option"
  faults :: "path \<Rightarrow> js_error option"

definition ENOENT :: js_error where
  "ENOENT = JsError ''Error'' ''ENOENT: no such file or directory''"

definition EISDIR :: js_error where
  "EISDIR = JsError ''Error'' ''EISDIR: illegal operation on a directory''"

definition EACCES :: js_error where
  "EACCES = JsError ''Error'' ''EACCES: permission denied''"

definition ERR_INVALID_ARG_TYPE :: js_error where
  "ERR_INVALID_ARG_TYPE = JsError ''TypeError'' ''The data argument must be of type string. Received undefined''"

definition fs_stat :: "path \<Rightarrow> filesystem \<Rightarrow> js_error + node" where
  "fs_stat p fs =
     (case faults fs p of
        Some e \<Rightarrow> Inl e
      | None \<Rightarrow> (case nodes fs p of None \<Rightarrow> Inl ENOENT | Some n \<Rightarrow> Inr n))"

definition fs_readFile :: "path \<Rightarrow> filesystem \<Rightarrow> js_error + string" where
  "fs_readFile p fs =
     (case faults fs p of
        Some e \<Rightarrow> Inl e
      | None \<Rightarrow>
          (case nodes fs p of
             None \<Rightarrow> Inl ENOENT
           | Some Directory \<Rightarrow> Inl EISDIR
           | Some (File text) \<Rightarrow> Inr text
           | Some (Restricted a text) \<Rightarrow> (if a = ReadOnly then Inr text else Inl EACCES)))"

definition fs_writeFile :: "path \<Rightarrow> string option \<Rightarrow> filesystem \<Rightarrow> (js_error + unit) \<times> filesystem" where
  "fs_writeFile p data fs =
     (case data of
        None \<Rightarrow> (Inl ERR_INVALID_ARG_TYPE, fs)
      | Some text \<Rightarrow>
          (case faults fs p of
             Some e \<Rightarrow> (Inl e, fs)
           | None \<Rightarrow>
               (case nodes fs p of
                  None \<Rightarrow> (Inr (), fs\<lparr>nodes := (nodes fs)(p \<mapsto> File text)\<rparr>)
                | Some Directory \<Rightarrow> (Inl EISDIR, fs)
                | Some (File old) \<Rightarrow> (Inr (), fs\<lparr>nodes := (nodes fs)(p \<mapsto> File text)\<rparr>)
                | Some (Restricted a old) \<Rightarrow>
                    (if a = WriteOnly
                     then (Inr (), fs\<lparr>nodes := (nodes fs)(p \<mapsto> Restricted WriteOnly text)\<rparr>)
                     else (Inl EACCES, fs)))))"

subsection \<open>JSON codec\<close>

text \<open>
  \<^verbatim>\<open>JSON.stringify(value, null, 2)\<close> throws (a cyclic value, a BigInt), returns
  \<^verbatim>\<open>undefined\<close> (\<open>None\<close>: a function, a symbol, \<^verbatim>\<open>undefined\<close> itself) or returns the
  text. \<^verbatim>\<open>JSON.parse\<close> throws a \<^verbatim>\<open>SyntaxError\<close> or returns a value, never
  \<^verbatim>\<open>undefined\<close>. The snapshot type \<open>'a\<close> is opaque to the class, so the codec is a
  parameter of every function that uses it.
\<close>

record 'a json_codec =
  stringify :: "'a \<Rightarrow> js_error + string option"
  parse :: "string \<Rightarrow> js_error + 'a"

subsection \<open>Logger and process\<close>

text \<open>
  The logger is the caller's; it is modelled as a recorder that appends the entry and
  returns. \<^verbatim>\<open>warn\<close> is optional in the interface and never called by the class.
  \<^verbatim>\<open>process.exit\<close> is recorded call by call, as the stub of the test suite observes
  it, and \<open>save_calls\<close> counts the invocations of \<^verbatim>\<open>saveProgress\<close>, as the test suite's
  spy does.
\<close>

datatype severity = INFO | ERROR

record world =
  disk :: filesystem
  log :: "(severity \<times> string) list"
  listeners :: "string list"
  exit_calls :: "int list"
  save_calls :: nat

definition logger_info :: "string \<Rightarrow> world \<Rightarrow> world" where
  "logger_info message w = w\<lparr>log := log w @ [(INFO, message)]\<rparr>"

definition logger_error :: "string \<Rightarrow> world \<Rightarrow> world" where
  "logger_error message w = w\<lparr>log := log w @ [(ERROR, message)]\<rparr>"

definition process_on :: "string \<Rightarrow> world \<Rightarrow> world" where
  "process_on eventName w = w\<lparr>listeners := listeners w @ [eventName]\<rparr>"

definition process_exit :: "int \<Rightarrow> world \<Rightarrow> world" where
  "process_exit code w = w\<lparr>exit_calls := exit_calls w @ [code]\<rparr>"

definition error_entries :: "world \<Rightarrow> (severity \<times> string) list" where
  "error_entries w = filter (\<lambda>entry. fst entry = ERROR) (log w)"

section \<open>The class CatsaJanga\<close>

text \<open>
  The options carry the snapshot provider, the optional initial data (\<open>None\<close> is
  \<^verbatim>\<open>undefined\<close>) and the output file; the logger is the \<open>log\<close> of the world. The
  provider is called with no argument and may throw. An instance copies the options and
  owns the variable \<^verbatim>\<open>isShuttingDown\<close> that \<^verbatim>\<open>setupProcessHandlers\<close> declares and its
  handlers close over.
\<close>

record 'a CatsaJangaOptions =
  getData :: "unit \<Rightarrow> js_error + 'a"
  initialData :: "'a option"
  outputFile :: path

record 'a CatsaJanga = "'a CatsaJangaOptions" +
  isShuttingDown :: bool

definition setupProcessHandlers :: "world \<Rightarrow> bool \<times> world" where
  "setupProcessHandlers w =
     (False,
      process_on ''unhandledRejection''
        (process_on ''uncaughtException''
          (process_on ''SIGTERM''
            (process_on ''SIGINT'' w))))"

definition CatsaJanga_new :: "'a CatsaJangaOptions \<Rightarrow> world \<Rightarrow> 'a CatsaJanga \<times> world" where
  "CatsaJanga_new options w =
     (case setupProcessHandlers w of
        (flag, w') \<Rightarrow>
          (\<lparr>getData = getData options, initialData = initialData options,
            outputFile = outputFile options, isShuttingDown = flag\<rparr>, w'))"

subsection \<open>restore\<close>

text \<open>
  \<open>restore_read\<close> is the inner \<^verbatim>\<open>try\<close> block (read, parse, log, return),
  \<open>restore_try\<close> the outer one with the inner \<^verbatim>\<open>catch\<close>, and \<open>restore\<close> adds the outer
  \<^verbatim>\<open>catch\<close>. \<^verbatim>\<open>fs.stat(...).catch(() => false)\<close> turns every rejection of the
  existence check into \<^verbatim>\<open>false\<close>; a \<^verbatim>\<open>Stats\<close> object is truthy. The result is
  \<open>Inr\<close> when the promise is fulfilled and \<open>Inl\<close> when it is rejected.
\<close>

definition restore_read ::
  "'a json_codec \<Rightarrow> ('a, 'm) CatsaJangaOptions_scheme \<Rightarrow> world \<Rightarrow> (js_error + 'a option) \<times> world" where
  "restore_read JSON this w =
     (case fs_readFile (outputFile this) (disk w) of
        Inl error \<Rightarrow> (Inl error, w)
      | Inr text \<Rightarrow>
          (case parse JSON text of
             Inl error \<Rightarrow> (Inl error, w)
           | Inr restoredData \<Rightarrow>
               (Inr (Some restoredData), logger_info ''Progress data successfully restored'' w)))"

definition restore_try ::
  "'a json_codec \<Rightarrow> ('a, 'm) CatsaJangaOptions_scheme \<Rightarrow> world \<Rightarrow> (js_error + 'a option) \<times> world" where
  "restore_try JSON this w =
     (let fileExists = (case fs_stat (outputFile this) (disk w) of Inl _ \<Rightarrow> False | Inr _ \<Rightarrow> True)
      in if \<not> fileExists then (Inr (initialData this), w)
         else (case restore_read JSON this w of
                 (Inl error, w') \<Rightarrow>
                   (Inr (initialData this),
                    logger_error (''Error restoring progress: '' @ error_toString error) w')
               | (Inr restoredData, w') \<Rightarrow> (Inr restoredData, w')))"

definition restore ::
  "'a json_codec \<Rightarrow> ('a, 'm) CatsaJangaOptions_scheme \<Rightarrow> world \<Rightarrow> (js_error + 'a option) \<times> world" where
  "restore JSON this w =
     (case restore_try JSON this w of
        (Inl error, w') \<Rightarrow>
          (Inr (initialData this),
           logger_error (''Error checking file existence: '' @ error_toString error) w')
      | (Inr result, w') \<Rightarrow> (Inr result, w'))"

subsection \<open>saveProgress\<close>

text \<open>
  \<open>saveProgress_try\<close> is the \<^verbatim>\<open>try\<close> block up to its \<^verbatim>\<open>await\<close>: the info entry, the
  call of the provider, the serialization, and the write request handed to the file
  system. \<open>saveProgress_catch\<close> is the \<^verbatim>\<open>catch\<close> block. The function suspends at the
  \<^verbatim>\<open>await\<close> (\<open>saveProgress_start\<close> returns the request it waits for, or \<open>None\<close> when the
  \<^verbatim>\<open>try\<close> block threw before it and the \<^verbatim>\<open>catch\<close> block has already run) and goes on
  when the request is settled (\<open>saveProgress_resume\<close>). \<open>saveProgress\<close> is the whole
  call with nothing running in between.
\<close>

datatype io_request = WriteFile path "string option"

definition perform :: "io_request \<Rightarrow> world \<Rightarrow> (js_error + unit) \<times> world" where
  "perform request w =
     (case request of
        WriteFile p text \<Rightarrow>
          (case fs_writeFile p text (disk w) of (outcome, fs') \<Rightarrow> (outcome, w\<lparr>disk := fs'\<rparr>)))"

definition saveProgress_try ::
  "'a json_codec \<Rightarrow> ('a, 'm) CatsaJangaOptions_scheme \<Rightarrow> world \<Rightarrow> (js_error + io_request) \<times> world" where
  "saveProgress_try JSON this w =
     (let w1 = logger_info (''Saving progress to '' @ outputFile this @ ''...'')
                 (w\<lparr>save_calls := Suc (save_calls w)\<rparr>)
      in case getData this () of
           Inl error \<Rightarrow> (Inl error, w1)
         | Inr snapshot \<Rightarrow>
             (case stringify JSON snapshot of
                Inl error \<Rightarrow> (Inl error, w1)
              | Inr text \<Rightarrow> (Inr (WriteFile (outputFile this) text), w1)))"

definition saveProgress_catch :: "js_error \<Rightarrow> world \<Rightarrow> world" where
  "saveProgress_catch error w = logger_error (''Error saving progress: '' @ error_toString error) w"

definition saveProgress_start ::
  "'a json_codec \<Rightarrow> ('a, 'm) CatsaJangaOptions_scheme \<Rightarrow> world \<Rightarrow> io_request option \<times> world" where
  "saveProgress_start JSON this w =
     (case saveProgress_try JSON this w of
        (Inl error, w') \<Rightarrow> (None, saveProgress_catch error w')
      | (Inr request, w') \<Rightarrow> (Some request, w'))"

definition saveProgress_resume :: "io_request option \<Rightarrow> world \<Rightarrow> (js_error + unit) \<times> world" where
  "saveProgress_resume awaited w =
     (case awaited of
        None \<Rightarrow> (Inr (), w)
      | Some request \<Rightarrow>
          (case perform request w of
             (Inl error, w') \<Rightarrow> (Inr (), saveProgress_catch error w')
           | (Inr u, w') \<Rightarrow> (Inr (), w')))"

definition saveProgress ::
  "'a json_codec \<Rightarrow> ('a, 'm) CatsaJangaOptions_scheme \<Rightarrow> world \<Rightarrow> (js_error + unit) \<times> world" where
  "saveProgress JSON this w =
     (case saveProgress_start JSON this w of (awaited, w') \<Rightarrow> saveProgress_resume awaited w')"

subsection \<open>createWithRestore\<close>

text \<open>
  The static factory, from the revision of the class that has it: construct, restore,
  and \<^verbatim>\<open>restoredData !== undefined ? restoredData : initialData\<close>.
\<close>

record 'a created =
  saver :: "'a CatsaJanga"
  data :: "'a option"

definition createWithRestore ::
  "'a json_codec \<Rightarrow> 'a CatsaJangaOptions \<Rightarrow> world \<Rightarrow> (js_error + 'a created) \<times> world" where
  "createWithRestore JSON options w =
     (case CatsaJanga_new options w of
        (this, w1) \<Rightarrow>
          (case restore JSON this w1 of
             (Inl error, w2) \<Rightarrow> (Inl error, w2)
           | (Inr restoredData, w2) \<Rightarrow>
               (Inr \<lparr>saver = this,
                     data = (case restoredData of
                               Some v \<Rightarrow> Some v
                             | None \<Rightarrow> initialData options)\<rparr>, w2)))"

subsection \<open>The handlers of setupProcessHandlers\<close>

text \<open>
  The process runs one task at a time. A notification runs its listener up to the first
  \<^verbatim>\<open>await\<close>; \<^verbatim>\<open>handleExit\<close> then stays suspended at \<^verbatim>\<open>await this.saveProgress()\<close>
  with its exit code, and is resumed later (\<open>tick\<close>), when the save is settled. The
  listener of a signal only calls \<^verbatim>\<open>handleExit\<close>; the listener of a crash
  notification writes its error entry first.
\<close>

datatype event = SIGINT | SIGTERM | UncaughtException js_error | UnhandledRejection js_error

datatype continuation = AwaitSaveProgress "io_request option" int

record 'a process =
  owner :: "'a CatsaJanga"
  suspended :: "continuation list"
  env :: world

definition handleExit :: "'a json_codec \<Rightarrow> string \<Rightarrow> int \<Rightarrow> 'a process \<Rightarrow> 'a process" where
  "handleExit JSON signal exitCode P =
     (if isShuttingDown (owner P) then P
      else (let this = (owner P)\<lparr>isShuttingDown := True\<rparr>;
                w1 = logger_info (''Process '' @ signal @ ''. Saving progress...'') (env P)
            in case saveProgress_start JSON this w1 of
                 (awaited, w2) \<Rightarrow>
                   P\<lparr>owner := this,
                     suspended := suspended P @ [AwaitSaveProgress awaited exitCode],
                     env := w2\<rparr>))"

definition handleExit_resume :: "continuation \<Rightarrow> world \<Rightarrow> world" where
  "handleExit_resume k w =
     (case k of
        AwaitSaveProgress awaited exitCode \<Rightarrow>
          (case saveProgress_resume awaited w of
             (Inl error, w') \<Rightarrow> w'
           | (Inr u, w') \<Rightarrow> process_exit exitCode w'))"

definition emit :: "'a json_codec \<Rightarrow> event \<Rightarrow> 'a process \<Rightarrow> 'a process" where
  "emit JSON ev P =
     (case ev of
        SIGINT \<Rightarrow> handleExit JSON ''interrupted (SIGINT)'' 0 P
      | SIGTERM \<Rightarrow> handleExit JSON ''terminated (SIGTERM)'' 0 P
      | UncaughtException error \<Rightarrow>
          handleExit JSON ''crashed with uncaught exception'' 1
            (P\<lparr>env := logger_error (''Uncaught exception: '' @ err_message error) (env P)\<rparr>)
      | UnhandledRejection reason \<Rightarrow>
          handleExit JSON ''crashed with unhandled rejection'' 1
            (P\<lparr>env := logger_error (''Unhandled promise rejection: '' @ error_toString reason) (env P)\<rparr>))"

definition tick :: "'a process \<Rightarrow> 'a process" where
  "tick P =
     (case suspended P of
        [] \<Rightarrow> P
      | k # ks \<Rightarrow> P\<lparr>suspended := ks, env := handleExit_resume k (env P)\<rparr>)"

definition drain :: "'a process \<Rightarrow> 'a process" where
  "drain P = fold (\<lambda>k. tick) (suspended P) P"

definition boot :: "'a CatsaJangaOptions \<Rightarrow> world \<Rightarrow> 'a process" where
  "boot options w =
     (case CatsaJanga_new options w of
        (this, w') \<Rightarrow> \<lparr>owner = this, suspended = [], env = w'\<rparr>)"

text \<open>
  The status the specification assigns to a cause, in its words: \<open>0\<close> on a
  signal-initiated graceful shutdown, \<open>1\<close> on a crash-initiated one.
\<close>

definition spec_exit_status :: "event \<Rightarrow> int" where
  "spec_exit_status ev =
     (case ev of
        SIGINT \<Rightarrow> 0
      | SIGTERM \<Rightarrow> 0
      | UncaughtException error \<Rightarrow> 1
      | UnhandledRejection reason \<Rightarrow> 1)"

text \<open>
  What the four listeners differ in: the cause text passed to \<^verbatim>\<open>handleExit\<close>, and the
  error entry the two crash listeners write before they call it.
\<close>

definition cause :: "event \<Rightarrow> string" where
  "cause ev =
     (case ev of
        SIGINT \<Rightarrow> ''interrupted (SIGINT)''
      | SIGTERM \<Rightarrow> ''terminated (SIGTERM)''
      | UncaughtException error \<Rightarrow> ''crashed with uncaught exception''
      | UnhandledRejection reason \<Rightarrow> ''crashed with unhandled rejection'')"

definition crash_entry :: "event \<Rightarrow> world \<Rightarrow> world" where
  "crash_entry ev w =
     (case ev of
        SIGINT \<Rightarrow> w
      | SIGTERM \<Rightarrow> w
      | UncaughtException error \<Rightarrow>
          logger_error (''Uncaught exception: '' @ err_message error) w
      | UnhandledRejection reason \<Rightarrow>
          logger_error (''Unhandled promise rejection: '' @ error_toString reason) w)"

section \<open>A concrete instance\<close>

text \<open>
  For evaluation at concrete inputs: snapshots of type boolean, whose JSON texts are
  \<^verbatim>\<open>true\<close> and \<^verbatim>\<open>false\<close>; an empty disk; and a store over \<^verbatim>\<open>progress.json\<close>.
\<close>

definition SyntaxError :: js_error where
  "SyntaxError = JsError ''SyntaxError'' ''JSON Parse error: Unexpected identifier''"

definition JSON_boolean :: "bool json_codec" where
  "JSON_boolean =
     \<lparr>stringify = (\<lambda>b. Inr (Some (if b then ''true'' else ''false''))),
      parse = (\<lambda>text. if text = ''true'' then Inr True
                       else if text = ''false'' then Inr False
                       else Inl SyntaxError)\<rparr>"

definition empty_disk :: filesystem where
  "empty_disk = \<lparr>nodes = (\<lambda>p. None), faults = (\<lambda>p. None)\<rparr>"

definition new_world :: "filesystem \<Rightarrow> world" where
  "new_world fs = \<lparr>disk = fs, log = [], listeners = [], exit_calls = [], save_calls = 0\<rparr>"

definition demo_options :: "bool CatsaJangaOptions" where
  "demo_options =
     \<lparr>getData = (\<lambda>u. Inr True), initialData = Some False, outputFile = ''progress.json''\<rparr>"

text \<open>
  Disks on which \<^verbatim>\<open>progress.json\<close> holds a saved snapshot, holds the corrupt text of
  the test suite, or exists but cannot be reached (every access is refused with
  \<^verbatim>\<open>EACCES\<close>); a provider error; and the process right after construction.
\<close>

definition saved_disk :: filesystem where
  "saved_disk =
     \<lparr>nodes = (\<lambda>p. if p = ''progress.json'' then Some (File ''true'') else None),
      faults = (\<lambda>p. None)\<rparr>"

definition corrupt_disk :: filesystem where
  "corrupt_disk =
     \<lparr>nodes = (\<lambda>p. if p = ''progress.json'' then Some (File ''{ this is not valid JSON }'') else None),
      faults = (\<lambda>p. None)\<rparr>"

definition denied_disk :: filesystem where
  "denied_disk =
     \<lparr>nodes = (\<lambda>p. if p = ''progress.json'' then Some (File ''true'') else None),
      faults = (\<lambda>p. if p = ''progress.json'' then Some EACCES else None)\<rparr>"

text \<open>
  A disk on which \<^verbatim>\<open>progress.json\<close> is a write-only file holding an earlier
  checkpoint. And a snapshot type with a value that JSON does not reproduce, as the
  \<^verbatim>\<open>timestamp: Date\<close> of the snapshot in the package's usage example: the Date object
  \<^verbatim>\<open>new Date(0)\<close> and the string \<^verbatim>\<open>1970-01-01T00:00:00.000Z\<close> that its
  \<^verbatim>\<open>toJSON\<close> returns. Both are serialized to that string in double quotes, and the
  text is parsed to the string.
\<close>

definition write_only_disk :: filesystem where
  "write_only_disk =
     \<lparr>nodes = (\<lambda>p. if p = ''progress.json'' then Some (Restricted WriteOnly ''false'') else None),
      faults = (\<lambda>p. None)\<rparr>"

datatype timestamp = DateEpoch | IsoString

definition epoch_text :: string where
  "epoch_text = CHR 0x22 # ''1970-01-01T00:00:00.000Z'' @ [CHR 0x22]"

definition JSON_timestamp :: "timestamp json_codec" where
  "JSON_timestamp =
     \<lparr>stringify = (\<lambda>v. Inr (Some epoch_text)),
      parse = (\<lambda>text. if text = epoch_text then Inr IsoString else Inl SyntaxError)\<rparr>"

definition timestamp_options :: "timestamp CatsaJangaOptions" where
  "timestamp_options =
     \<lparr>getData = (\<lambda>u. Inr DateEpoch), initialData = None, outputFile = ''progress.json''\<rparr>"

definition boom :: js_error where
  "boom = JsError ''Error'' ''boom''"

definition demo_process :: "bool process" where
  "demo_process = boot demo_options (new_world empty_disk)"

lemmas runtime_defs =
  error_toString_def ENOENT_def EISDIR_def EACCES_def ERR_INVALID_ARG_TYPE_def fs_stat_def fs_readFile_def
  fs_writeFile_def logger_info_def logger_error_def process_on_def process_exit_def
  error_entries_def

lemmas class_defs =
  setupProcessHandlers_def CatsaJanga_new_def restore_read_def restore_try_def restore_def
  perform_def saveProgress_try_def saveProgress_catch_def saveProgress_start_def
  saveProgress_resume_def saveProgress_def createWithRestore_def handleExit_def
  handleExit_resume_def emit_def tick_def drain_def boot_def spec_exit_status_def

lemmas demo_defs =
  SyntaxError_def JSON_boolean_def empty_disk_def new_world_def demo_options_def
  corrupt_disk_def denied_disk_def demo_process_def boom_def saved_disk_def
  write_only_disk_def epoch_text_def JSON_timestamp_def timestamp_options_def

section \<open>Properties of restore\<close>

text \<open>
  C4. For every store, if the checkpoint file does not exist at the configured path,
  restore returns the configured initial data (\<open>None\<close>, the absent indicator, when none
  was configured) and does not treat this as an error: the promise is fulfilled and the
  world, with its log, is left as it was, so no error entry is written.
\<close>

theorem restore_missing_file:
  assumes "nodes (disk w) (outputFile this) = None"
  shows "restore JSON this w = (Inr (initialData this), w)"
  using assms
  by (simp add: restore_def restore_try_def fs_stat_def split: option.splits)

theorem restore_missing_file_witness:
  "nodes (disk (new_world empty_disk)) (outputFile demo_options) = None
   \<and> restore JSON_boolean demo_options (new_world empty_disk) = (Inr (Some False), new_world empty_disk)
   \<and> restore JSON_boolean (demo_options\<lparr>initialData := None\<rparr>) (new_world empty_disk)
       = (Inr None, new_world empty_disk)
   \<and> error_entries (new_world empty_disk) = []"
  using restore_missing_file [of "new_world empty_disk" demo_options JSON_boolean]
    restore_missing_file [of "new_world empty_disk" "demo_options\<lparr>initialData := None\<rparr>" JSON_boolean]
  by (simp add: new_world_def empty_disk_def demo_options_def error_entries_def)

lemma error_entries_logger_error:
  "error_entries (logger_error m w) = error_entries w @ [(ERROR, m)]"
  by (simp add: error_entries_def logger_error_def)

text \<open>
  C3. For every store and every file content that fails to deserialize as JSON, restore
  returns the configured initial data (\<open>None\<close> when none was configured), emits exactly
  one error log entry, and never raises: the promise is fulfilled (\<open>Inr\<close>), and the only
  change of the world is the one error entry appended to the log.
\<close>

theorem restore_corrupt_file:
  assumes "faults (disk w) (outputFile this) = None"
    and "nodes (disk w) (outputFile this) = Some (File text)"
    and "parse JSON text = Inl error"
  shows "restore JSON this w =
           (Inr (initialData this),
            logger_error (''Error restoring progress: '' @ error_toString error) w)
         \<and> error_entries (snd (restore JSON this w)) =
             error_entries w @ [(ERROR, ''Error restoring progress: '' @ error_toString error)]"
  using assms
  by (simp add: restore_def restore_try_def restore_read_def fs_stat_def fs_readFile_def
      error_entries_logger_error)

theorem restore_corrupt_file_witness:
  "faults (disk (new_world corrupt_disk)) (outputFile demo_options) = None
   \<and> nodes (disk (new_world corrupt_disk)) (outputFile demo_options)
       = Some (File ''{ this is not valid JSON }'')
   \<and> parse JSON_boolean ''{ this is not valid JSON }'' = Inl SyntaxError
   \<and> fst (restore JSON_boolean demo_options (new_world corrupt_disk)) = Inr (Some False)
   \<and> log (snd (restore JSON_boolean demo_options (new_world corrupt_disk))) =
       [(ERROR, ''Error restoring progress: SyntaxError: JSON Parse error: Unexpected identifier'')]"
proof -
  have h: "faults (disk (new_world corrupt_disk)) (outputFile demo_options) = None"
    "nodes (disk (new_world corrupt_disk)) (outputFile demo_options)
       = Some (File ''{ this is not valid JSON }'')"
    "parse JSON_boolean ''{ this is not valid JSON }'' = Inl SyntaxError"
    by (simp_all add: demo_defs)
  from h restore_corrupt_file [OF h] show ?thesis
    by (simp add: logger_error_def error_toString_def SyntaxError_def new_world_def
        demo_options_def)
qed

text \<open>
  C7. When the existence check itself fails for an environmental reason, restore should
  log the error and fall back to the initial data. The fallback is taken, but nothing is
  logged: the rejection of \<^verbatim>\<open>fs.stat\<close> is replaced by \<^verbatim>\<open>false\<close> before the outer
  \<^verbatim>\<open>catch\<close> (the one that logs \<^verbatim>\<open>Error checking file existence\<close>) could see it.
  Evaluated on a disk where \<^verbatim>\<open>progress.json\<close> exists and every access to it is refused
  with \<^verbatim>\<open>EACCES\<close>: the result is the initial data and the log stays empty.
\<close>

theorem restore_stat_rejected_unlogged:
  "fs_stat (outputFile demo_options) (disk (new_world denied_disk)) = Inl EACCES
   \<and> restore JSON_boolean demo_options (new_world denied_disk)
       = (Inr (Some False), new_world denied_disk)
   \<and> log (snd (restore JSON_boolean demo_options (new_world denied_disk))) = []"
  by (simp add: new_world_def denied_disk_def demo_options_def
      restore_def restore_try_def fs_stat_def)

lemma restore_stat_rejected:
  assumes "fs_stat (outputFile this) (disk w) = Inl error"
  shows "restore JSON this w = (Inr (initialData this), w)"
  using assms by (simp add: restore_def restore_try_def)

lemma restore_fulfilled:
  "fst (restore JSON this w) = Inr (initialData this)
   \<or> (\<exists>v. fst (restore JSON this w) = Inr (Some v))"
  by (simp add: restore_def restore_try_def restore_read_def
      split: sum.splits prod.splits option.splits node.splits)

section \<open>Properties of saveProgress\<close>

text \<open>
  C9. For every store whose snapshot provider raises when invoked, saveProgress catches
  the raised error, logs it as an error, completes without throwing, and leaves the
  checkpoint file's prior contents unchanged: nothing is handed to the file system, the
  log gains the info entry of the attempt and one error entry, as after a failed write.
\<close>

theorem saveProgress_provider_throws:
  assumes "getData this () = Inl error"
  shows "saveProgress JSON this w =
           (Inr (),
            logger_error (''Error saving progress: '' @ error_toString error)
              (logger_info (''Saving progress to '' @ outputFile this @ ''...'')
                 (w\<lparr>save_calls := Suc (save_calls w)\<rparr>)))
         \<and> disk (snd (saveProgress JSON this w)) = disk w"
  using assms
  by (simp add: saveProgress_def saveProgress_start_def saveProgress_try_def
      saveProgress_resume_def saveProgress_catch_def logger_error_def logger_info_def)

theorem saveProgress_provider_throws_witness:
  "getData (demo_options\<lparr>getData := (\<lambda>u. Inl boom)\<rparr>) () = Inl boom
   \<and> fst (saveProgress JSON_boolean (demo_options\<lparr>getData := (\<lambda>u. Inl boom)\<rparr>)
           (new_world saved_disk)) = Inr ()
   \<and> log (snd (saveProgress JSON_boolean (demo_options\<lparr>getData := (\<lambda>u. Inl boom)\<rparr>)
           (new_world saved_disk))) =
       [(INFO, ''Saving progress to progress.json...''),
        (ERROR, ''Error saving progress: Error: boom'')]
   \<and> disk (snd (saveProgress JSON_boolean (demo_options\<lparr>getData := (\<lambda>u. Inl boom)\<rparr>)
           (new_world saved_disk))) = saved_disk"
proof -
  have h: "getData (demo_options\<lparr>getData := (\<lambda>u. Inl boom)\<rparr>) () = Inl boom"
    by simp
  from h saveProgress_provider_throws [OF h, where JSON = JSON_boolean and w = "new_world saved_disk"]
  show ?thesis
    by (simp add: logger_info_def logger_error_def error_toString_def boom_def new_world_def
        demo_options_def)
qed

text \<open>
  C5. For every store and every write failure, saveProgress catches the failure, emits
  exactly one error log entry, and completes without throwing to its caller; no failure
  is reported through its result, which is the fulfilled promise of a successful save.
\<close>

theorem saveProgress_write_failure:
  assumes "getData this () = Inr v"
    and "stringify JSON v = Inr text"
    and "fs_writeFile (outputFile this) text (disk w) = (Inl error, fs')"
  shows "fst (saveProgress JSON this w) = Inr ()
         \<and> error_entries (snd (saveProgress JSON this w)) =
             error_entries w @ [(ERROR, ''Error saving progress: '' @ error_toString error)]"
  using assms
  by (simp add: saveProgress_def saveProgress_start_def saveProgress_try_def
      saveProgress_resume_def saveProgress_catch_def perform_def logger_error_def logger_info_def
      error_entries_def)

theorem saveProgress_write_failure_witness:
  "getData demo_options () = Inr True
   \<and> stringify JSON_boolean True = Inr (Some ''true'')
   \<and> fs_writeFile (outputFile demo_options) (Some ''true'') (disk (new_world denied_disk))
       = (Inl EACCES, denied_disk)
   \<and> fst (saveProgress JSON_boolean demo_options (new_world denied_disk)) = Inr ()
   \<and> error_entries (snd (saveProgress JSON_boolean demo_options (new_world denied_disk))) =
       [(ERROR, ''Error saving progress: Error: EACCES: permission denied'')]"
proof -
  have h: "getData demo_options () = Inr True"
    "stringify JSON_boolean True = Inr (Some ''true'')"
    "fs_writeFile (outputFile demo_options) (Some ''true'') (disk (new_world denied_disk))
       = (Inl EACCES, denied_disk)"
    by (simp_all add: runtime_defs demo_defs)
  have "error_entries (new_world denied_disk) = []"
    by (simp add: error_entries_def new_world_def)
  with h saveProgress_write_failure [OF h] show ?thesis
    by (simp add: error_toString_def EACCES_def)
qed

text \<open>
  C1. For every snapshot value that \<^verbatim>\<open>JSON.stringify\<close> turns into a text, if
  saveProgress is called on a store whose snapshot provider returns that value, the
  write succeeds and the file can then be read, a subsequent restore against the same
  path, by that store or by any other, reads exactly the text that was written and
  returns the value \<^verbatim>\<open>JSON.parse\<close> yields for it (the initial data, with one error
  entry, if the text does not parse). The returned value is equal to the snapshot as
  far as parsing the serialized text reproduces it.
\<close>

theorem save_then_restore:
  assumes "getData this () = Inr v"
    and "stringify JSON v = Inr (Some text)"
    and "fst (fs_writeFile (outputFile this) (Some text) (disk w)) = Inr ()"
    and "fs_readFile (outputFile this) (disk (snd (saveProgress JSON this w))) = Inr t"
    and "outputFile that = outputFile this"
  shows "t = text
       \<and> restore JSON that (snd (saveProgress JSON this w)) =
           (case parse JSON text of
              Inl error \<Rightarrow>
                (Inr (initialData that),
                 logger_error (''Error restoring progress: '' @ error_toString error)
                   (snd (saveProgress JSON this w)))
            | Inr restoredData \<Rightarrow>
                (Inr (Some restoredData),
                 logger_info ''Progress data successfully restored''
                   (snd (saveProgress JSON this w))))"
proof -
  let ?p = "outputFile this"
  obtain fs' where written: "fs_writeFile ?p (Some text) (disk w) = (Inr (), fs')"
    using assms(3) by (cases "fs_writeFile ?p (Some text) (disk w)") simp
  have saved: "disk (snd (saveProgress JSON this w)) = fs'"
    using assms(1,2) written
    by (simp add: saveProgress_def saveProgress_start_def saveProgress_try_def
        saveProgress_resume_def perform_def logger_info_def)
  have seen: "faults fs' ?p = None"
    "nodes fs' ?p = Some (File text) \<or> nodes fs' ?p = Some (Restricted WriteOnly text)"
    using written
    by (auto simp add: fs_writeFile_def split: option.splits node.splits if_splits)
  have read: "fs_readFile ?p fs' = Inr t"
    using assms(4) saved by simp
  have node: "nodes fs' ?p = Some (File text)" and t: "t = text"
    using seen read by (auto simp add: fs_readFile_def EACCES_def)
  have stat: "fs_stat ?p fs' = Inr (File text)"
    using seen(1) node by (simp add: fs_stat_def)
  have "restore JSON that (snd (saveProgress JSON this w)) =
           (case parse JSON text of
              Inl error \<Rightarrow>
                (Inr (initialData that),
                 logger_error (''Error restoring progress: '' @ error_toString error)
                   (snd (saveProgress JSON this w)))
            | Inr restoredData \<Rightarrow>
                (Inr (Some restoredData),
                 logger_info ''Progress data successfully restored''
                   (snd (saveProgress JSON this w))))"
    using stat read t saved assms(5)
    by (simp add: restore_def restore_try_def restore_read_def split: sum.splits)
  with t show ?thesis by simp
qed

theorem save_then_restore_witness:
  "getData demo_options () = Inr True
   \<and> stringify JSON_boolean True = Inr (Some ''true'')
   \<and> fst (fs_writeFile (outputFile demo_options) (Some ''true'') (disk (new_world empty_disk))) = Inr ()
   \<and> fs_readFile (outputFile demo_options)
         (disk (snd (saveProgress JSON_boolean demo_options (new_world empty_disk)))) = Inr ''true''
   \<and> outputFile (demo_options\<lparr>initialData := None\<rparr>) = outputFile demo_options
   \<and> fst (restore JSON_boolean (demo_options\<lparr>initialData := None\<rparr>)
           (snd (saveProgress JSON_boolean demo_options (new_world empty_disk)))) = Inr (Some True)"
proof -
  have h: "getData demo_options () = Inr True"
    "stringify JSON_boolean True = Inr (Some ''true'')"
    "fst (fs_writeFile (outputFile demo_options) (Some ''true'') (disk (new_world empty_disk))) = Inr ()"
    "fs_readFile (outputFile demo_options)
         (disk (snd (saveProgress JSON_boolean demo_options (new_world empty_disk)))) = Inr ''true''"
    "outputFile (demo_options\<lparr>initialData := None\<rparr>) = outputFile demo_options"
    by (simp_all add: runtime_defs class_defs demo_defs)
  have p: "parse JSON_boolean ''true'' = Inr True"
    by (simp add: JSON_boolean_def)
  from h p save_then_restore [OF h] show ?thesis by simp
qed

text \<open>
  The round trip is not the identity on every snapshot that can be saved. A Date is
  written as its ISO string and comes back as that string, not as the Date; and a
  checkpoint file that the process may write but not read takes the save and then makes
  restore fall back to the initial data.
\<close>

theorem save_then_restore_counterexample:
  "getData timestamp_options () = Inr DateEpoch
   \<and> stringify JSON_timestamp DateEpoch = Inr (Some epoch_text)
   \<and> fst (fs_writeFile (outputFile timestamp_options) (Some epoch_text)
            (disk (new_world empty_disk))) = Inr ()
   \<and> fst (restore JSON_timestamp timestamp_options
            (snd (saveProgress JSON_timestamp timestamp_options (new_world empty_disk))))
       = Inr (Some IsoString)
   \<and> IsoString \<noteq> DateEpoch
   \<and> getData demo_options () = Inr True
   \<and> stringify JSON_boolean True = Inr (Some ''true'')
   \<and> fst (fs_writeFile (outputFile demo_options) (Some ''true'')
            (disk (new_world write_only_disk))) = Inr ()
   \<and> fst (restore JSON_boolean demo_options
            (snd (saveProgress JSON_boolean demo_options (new_world write_only_disk))))
       = Inr (Some False)"
  by (simp add: runtime_defs class_defs demo_defs)

section \<open>Properties of createWithRestore\<close>

text \<open>
  C8. createWithRestore creates a store, immediately calls restore on it, and returns
  both the store and the resolved value; the resolved value is exactly what restore
  returned on the freshly constructed store (the restored snapshot when there is one,
  otherwise the configured initial data), in the world restore left behind.
\<close>

theorem createWithRestore_is_restore:
  "(case CatsaJanga_new options w of
      (this, w1) \<Rightarrow>
        (case restore JSON this w1 of
           (result, w2) \<Rightarrow>
             createWithRestore JSON options w =
               (map_sum id (\<lambda>restored. \<lparr>saver = this, data = restored\<rparr>) result, w2)
             \<and> (result = Inr (initialData options) \<or> (\<exists>v. result = Inr (Some v)))))"
proof -
  obtain this w1 where new: "CatsaJanga_new options w = (this, w1)"
    by (cases "CatsaJanga_new options w")
  obtain result w2 where res: "restore JSON this w1 = (result, w2)"
    by (cases "restore JSON this w1")
  have init: "initialData this = initialData options"
    using new by (auto simp add: CatsaJanga_new_def split: prod.splits)
  from restore_fulfilled [of JSON this w1] res
  have "result = Inr (initialData options) \<or> (\<exists>v. result = Inr (Some v))"
    by (simp add: init)
  then show ?thesis
    using new res by (auto simp add: createWithRestore_def split: option.splits)
qed

theorem createWithRestore_is_restore_witness:
  "fst (createWithRestore JSON_boolean demo_options (new_world saved_disk)) =
     Inr \<lparr>saver = fst (CatsaJanga_new demo_options (new_world saved_disk)), data = Some True\<rparr>
   \<and> fst (restore JSON_boolean (fst (CatsaJanga_new demo_options (new_world saved_disk)))
           (snd (CatsaJanga_new demo_options (new_world saved_disk)))) = Inr (Some True)
   \<and> fst (createWithRestore JSON_boolean demo_options (new_world empty_disk)) =
     Inr \<lparr>saver = fst (CatsaJanga_new demo_options (new_world empty_disk)), data = Some False\<rparr>
   \<and> fst (restore JSON_boolean (fst (CatsaJanga_new demo_options (new_world empty_disk)))
           (snd (CatsaJanga_new demo_options (new_world empty_disk)))) = Inr (Some False)"
proof -
  have saved: "restore JSON_boolean (fst (CatsaJanga_new demo_options (new_world saved_disk)))
           (snd (CatsaJanga_new demo_options (new_world saved_disk))) =
         (Inr (Some True),
          logger_info ''Progress data successfully restored''
            (snd (CatsaJanga_new demo_options (new_world saved_disk))))"
    by (simp add: runtime_defs class_defs demo_defs)
  have empty: "restore JSON_boolean (fst (CatsaJanga_new demo_options (new_world empty_disk)))
           (snd (CatsaJanga_new demo_options (new_world empty_disk))) =
         (Inr (Some False), snd (CatsaJanga_new demo_options (new_world empty_disk)))"
    by (simp add: runtime_defs class_defs demo_defs)
  from saved empty
    createWithRestore_is_restore
      [where options = demo_options and w = "new_world saved_disk" and JSON = JSON_boolean]
    createWithRestore_is_restore
      [where options = demo_options and w = "new_world empty_disk" and JSON = JSON_boolean]
  show ?thesis
    by (simp add: case_prod_beta)
qed

section \<open>Properties of the shutdown handlers\<close>

lemma saveProgress_start_counts:
  "saveProgress_start JSON this w = (awaited, w') \<Longrightarrow>
     save_calls w' = Suc (save_calls w) \<and> exit_calls w' = exit_calls w \<and> disk w' = disk w"
  by (auto simp add: saveProgress_start_def saveProgress_try_def saveProgress_catch_def
      logger_info_def logger_error_def Let_def split: sum.splits)

lemma saveProgress_resume_counts:
  "saveProgress_resume awaited w = (outcome, w') \<Longrightarrow>
     outcome = Inr () \<and> save_calls w' = save_calls w \<and> exit_calls w' = exit_calls w"
  by (auto simp add: saveProgress_resume_def perform_def saveProgress_catch_def
      logger_error_def split: option.splits sum.splits prod.splits io_request.splits)

lemma handleExit_resume_eq:
  "handleExit_resume (AwaitSaveProgress awaited code) w =
     process_exit code (snd (saveProgress_resume awaited w))"
  using saveProgress_resume_counts [of awaited w]
  by (cases "saveProgress_resume awaited w")
     (auto simp add: handleExit_resume_def split: sum.splits)

lemma saveProgress_start_flag:
  "saveProgress_start JSON (this\<lparr>isShuttingDown := b\<rparr>) w = saveProgress_start JSON this w"
  by (simp add: saveProgress_start_def saveProgress_try_def Let_def split: sum.splits)

lemma handleExit_active:
  assumes "\<not> isShuttingDown (owner P)"
  shows "handleExit JSON signal code P =
           P\<lparr>owner := (owner P)\<lparr>isShuttingDown := True\<rparr>,
             suspended := suspended P @
               [AwaitSaveProgress
                  (fst (saveProgress_start JSON (owner P)
                     (logger_info (''Process '' @ signal @ ''. Saving progress...'') (env P)))) code],
             env := snd (saveProgress_start JSON (owner P)
                     (logger_info (''Process '' @ signal @ ''. Saving progress...'') (env P)))\<rparr>"
  using assms
  by (simp add: handleExit_def Let_def saveProgress_start_flag case_prod_beta)

lemma handleExit_shutting_down:
  "isShuttingDown (owner P) \<Longrightarrow> handleExit JSON signal code P = P"
  by (simp add: handleExit_def)

lemma emit_handleExit:
  "emit JSON ev P =
     handleExit JSON (cause ev) (spec_exit_status ev) (P\<lparr>env := crash_entry ev (env P)\<rparr>)"
  by (cases ev) (simp_all add: emit_def cause_def crash_entry_def spec_exit_status_def)

lemma emit_active:
  assumes "\<not> isShuttingDown (owner P)"
  shows "emit JSON ev P =
           P\<lparr>owner := (owner P)\<lparr>isShuttingDown := True\<rparr>,
             suspended := suspended P @
               [AwaitSaveProgress
                  (fst (saveProgress_start JSON (owner P)
                     (logger_info (''Process '' @ cause ev @ ''. Saving progress...'')
                        (crash_entry ev (env P)))))
                  (spec_exit_status ev)],
             env := snd (saveProgress_start JSON (owner P)
                     (logger_info (''Process '' @ cause ev @ ''. Saving progress...'')
                        (crash_entry ev (env P))))\<rparr>"
  using assms by (simp add: emit_handleExit handleExit_active)

lemma emit_shutting_down:
  assumes "isShuttingDown (owner P)"
  shows "emit JSON ev P = P\<lparr>env := crash_entry ev (env P)\<rparr>"
  using assms by (simp add: emit_handleExit handleExit_shutting_down)

lemma crash_entry_counts:
  "save_calls (crash_entry ev w) = save_calls w \<and> exit_calls (crash_entry ev w) = exit_calls w
   \<and> disk (crash_entry ev w) = disk w"
  by (cases ev) (simp_all add: crash_entry_def logger_error_def)

lemma drain_single:
  "suspended P = [k] \<Longrightarrow> drain P = P\<lparr>suspended := [], env := handleExit_resume k (env P)\<rparr>"
  by (simp add: drain_def tick_def)

lemma saveProgress_start_log:
  "\<exists>rest. log (snd (saveProgress_start JSON this w)) = log w @ rest"
  by (simp add: saveProgress_start_def saveProgress_try_def saveProgress_catch_def
      logger_info_def logger_error_def Let_def split: sum.splits)

text \<open>
  C6. For every qualifying termination event (one that finds the coordinator active),
  the coordinator terminates the process with status 0 when the cause is SIGINT or
  SIGTERM and with status 1 when it is an uncaught error or an unhandled rejection, in
  each case after invoking saveProgress and waiting for it to complete: the listener
  itself does not exit, and when the handler is resumed the world is the one a complete
  call of saveProgress on the same disk leaves behind, with the one exit call appended.
\<close>

theorem exit_status_after_save:
  assumes "\<not> isShuttingDown (owner P)" and "suspended P = []"
  shows "exit_calls (env (emit JSON ev P)) = exit_calls (env P)
       \<and> (\<exists>w. disk w = disk (env P) \<and> exit_calls w = exit_calls (env P)
             \<and> fst (saveProgress JSON (owner P) w) = Inr ()
             \<and> env (tick (emit JSON ev P)) =
                 process_exit (spec_exit_status ev) (snd (saveProgress JSON (owner P) w)))
       \<and> exit_calls (env (tick (emit JSON ev P))) = exit_calls (env P) @ [spec_exit_status ev]"
proof -
  let ?w = "logger_info (''Process '' @ cause ev @ ''. Saving progress...'') (crash_entry ev (env P))"
  obtain awaited w1 where start: "saveProgress_start JSON (owner P) ?w = (awaited, w1)"
    by (cases "saveProgress_start JSON (owner P) ?w")
  obtain outcome w2 where resume: "saveProgress_resume awaited w1 = (outcome, w2)"
    by (cases "saveProgress_resume awaited w1")
  have w: "disk ?w = disk (env P)" "exit_calls ?w = exit_calls (env P)"
    by (simp_all add: logger_info_def crash_entry_counts)
  have c1: "exit_calls w1 = exit_calls (env P)"
    using saveProgress_start_counts [OF start] w by simp
  have c2: "outcome = Inr ()" "exit_calls w2 = exit_calls (env P)"
    using saveProgress_resume_counts [OF resume] c1 by simp_all
  have save: "saveProgress JSON (owner P) ?w = (Inr (), w2)"
    using start resume c2 by (simp add: saveProgress_def)
  have emitted: "env (emit JSON ev P) = w1"
    "suspended (emit JSON ev P) = [AwaitSaveProgress awaited (spec_exit_status ev)]"
    using assms start by (simp_all add: emit_active)
  have ticked: "env (tick (emit JSON ev P)) = process_exit (spec_exit_status ev) w2"
    using emitted resume by (simp add: tick_def handleExit_resume_eq)
  have "exit_calls (env (emit JSON ev P)) = exit_calls (env P)"
    using emitted c1 by simp
  moreover have "\<exists>w. disk w = disk (env P) \<and> exit_calls w = exit_calls (env P)
             \<and> fst (saveProgress JSON (owner P) w) = Inr ()
             \<and> env (tick (emit JSON ev P)) =
                 process_exit (spec_exit_status ev) (snd (saveProgress JSON (owner P) w))"
    using w save ticked by (intro exI [of _ ?w]) simp
  moreover have "exit_calls (env (tick (emit JSON ev P))) = exit_calls (env P) @ [spec_exit_status ev]"
    using ticked c2 by (simp add: process_exit_def)
  ultimately show ?thesis by blast
qed

theorem exit_status_after_save_witness:
  "\<not> isShuttingDown (owner demo_process) \<and> suspended demo_process = []
   \<and> exit_calls (env demo_process) = []
   \<and> exit_calls (env (emit JSON_boolean SIGINT demo_process)) = []
   \<and> exit_calls (env (tick (emit JSON_boolean SIGINT demo_process))) = [0]
   \<and> exit_calls (env (tick (emit JSON_boolean SIGTERM demo_process))) = [0]
   \<and> exit_calls (env (tick (emit JSON_boolean (UncaughtException boom) demo_process))) = [1]
   \<and> exit_calls (env (tick (emit JSON_boolean (UnhandledRejection boom) demo_process))) = [1]"
proof -
  have h: "\<not> isShuttingDown (owner demo_process)" "suspended demo_process = []"
    by (simp_all add: runtime_defs class_defs demo_defs)
  have z: "exit_calls (env demo_process) = []"
    by (simp add: runtime_defs class_defs demo_defs)
  from h z exit_status_after_save [OF h, where JSON = JSON_boolean and ev = SIGINT]
    exit_status_after_save [OF h, where JSON = JSON_boolean and ev = SIGTERM]
    exit_status_after_save [OF h, where JSON = JSON_boolean and ev = "UncaughtException boom"]
    exit_status_after_save [OF h, where JSON = JSON_boolean and ev = "UnhandledRejection boom"]
  show ?thesis
    by (simp add: spec_exit_status_def)
qed

text \<open>
  C2. For every coordinator instance, two termination events in succession, both before
  the suspended handler is resumed, trigger exactly one saveProgress call and exactly
  one process-termination call. The first listener sets the guard and starts the save
  before it suspends; the second finds the guard set and passes neither the save nor the
  exit: it leaves the instance, the suspended handlers, the counters and the disk as they
  were. When the suspended handler has run, one save and one exit have been added.
\<close>

theorem shutdown_runs_once:
  assumes "\<not> isShuttingDown (owner P)" and "suspended P = []"
  shows "let P1 = emit JSON e1 P; P2 = emit JSON e2 P1; P3 = drain P2 in
           isShuttingDown (owner P1) \<and> length (suspended P1) = 1
         \<and> save_calls (env P1) = Suc (save_calls (env P))
         \<and> exit_calls (env P1) = exit_calls (env P)
         \<and> owner P2 = owner P1 \<and> suspended P2 = suspended P1
         \<and> save_calls (env P2) = save_calls (env P1)
         \<and> exit_calls (env P2) = exit_calls (env P1)
         \<and> disk (env P2) = disk (env P1)
         \<and> suspended P3 = []
         \<and> save_calls (env P3) = Suc (save_calls (env P))
         \<and> length (exit_calls (env P3)) = Suc (length (exit_calls (env P)))"
proof -
  let ?w = "logger_info (''Process '' @ cause e1 @ ''. Saving progress...'') (crash_entry e1 (env P))"
  obtain awaited w1 where start: "saveProgress_start JSON (owner P) ?w = (awaited, w1)"
    by (cases "saveProgress_start JSON (owner P) ?w")
  define P1 where "P1 = emit JSON e1 P"
  define P2 where "P2 = emit JSON e2 P1"
  define P3 where "P3 = drain P2"
  have P1: "owner P1 = (owner P)\<lparr>isShuttingDown := True\<rparr>"
    "suspended P1 = [AwaitSaveProgress awaited (spec_exit_status e1)]" "env P1 = w1"
    using assms start by (simp_all add: P1_def emit_active)
  have w: "save_calls ?w = save_calls (env P)" "exit_calls ?w = exit_calls (env P)"
    by (simp_all add: logger_info_def crash_entry_counts)
  have w1: "save_calls w1 = Suc (save_calls (env P))" "exit_calls w1 = exit_calls (env P)"
    using saveProgress_start_counts [OF start] w by simp_all
  have guard: "isShuttingDown (owner P1)"
    using P1 by simp
  have P2: "P2 = P1\<lparr>env := crash_entry e2 (env P1)\<rparr>"
    using guard by (simp add: P2_def emit_shutting_down)
  obtain outcome w2 where resume: "saveProgress_resume awaited (env P2) = (outcome, w2)"
    by (cases "saveProgress_resume awaited (env P2)")
  have w2: "save_calls w2 = save_calls (env P2)" "exit_calls w2 = exit_calls (env P2)"
    using saveProgress_resume_counts [OF resume] by simp_all
  have P3: "P3 = P2\<lparr>suspended := [], env := process_exit (spec_exit_status e1) w2\<rparr>"
    using P1 P2 resume by (simp add: P3_def drain_single handleExit_resume_eq)
  have a: "isShuttingDown (owner P1) \<and> length (suspended P1) = 1"
    using P1 by simp
  have b: "save_calls (env P1) = Suc (save_calls (env P)) \<and> exit_calls (env P1) = exit_calls (env P)"
    using P1 w1 by simp
  have c: "owner P2 = owner P1 \<and> suspended P2 = suspended P1"
    using P2 by simp
  have d: "save_calls (env P2) = save_calls (env P1) \<and> exit_calls (env P2) = exit_calls (env P1)
         \<and> disk (env P2) = disk (env P1)"
    using P2 by (simp add: crash_entry_counts)
  have e: "suspended P3 = []"
    using P3 by simp
  have f: "save_calls (env P3) = Suc (save_calls (env P))"
    using P3 w2 d b by (simp add: process_exit_def)
  have g: "length (exit_calls (env P3)) = Suc (length (exit_calls (env P)))"
    using P3 w2 d b by (simp add: process_exit_def)
  from a b c d e f g show ?thesis
    unfolding Let_def P1_def [symmetric] P2_def [symmetric] P3_def [symmetric] by blast
qed

theorem shutdown_runs_once_witness:
  "\<not> isShuttingDown (owner demo_process) \<and> suspended demo_process = []
   \<and> save_calls (env demo_process) = 0 \<and> exit_calls (env demo_process) = []
   \<and> save_calls (env (drain (emit JSON_boolean SIGTERM (emit JSON_boolean SIGINT demo_process)))) = 1
   \<and> length (exit_calls (env (drain (emit JSON_boolean SIGTERM (emit JSON_boolean SIGINT demo_process))))) = 1"
proof -
  have h: "\<not> isShuttingDown (owner demo_process)" "suspended demo_process = []"
    by (simp_all add: runtime_defs class_defs demo_defs)
  have z: "save_calls (env demo_process) = 0" "exit_calls (env demo_process) = []"
    by (simp_all add: runtime_defs class_defs demo_defs)
  from h z shutdown_runs_once [OF h, where JSON = JSON_boolean and ?e1.0 = SIGINT and ?e2.0 = SIGTERM]
  show ?thesis
    by (simp add: Let_def)
qed

text \<open>
  C10. For every crash notification (uncaught exception or unhandled rejection), the
  listener emits its cause-describing error entry before the shutdown guard is
  consulted: whatever the guard, the entry is the first thing added to the log. So a
  crash notification that arrives while the coordinator is already shutting down still
  produces the error entry, and it is all it produces: no additional save, no exit, no
  new suspended handler.
\<close>

theorem crash_entry_precedes_guard:
  "(\<exists>rest. log (env (emit JSON (UncaughtException error) P)) =
       log (env P) @ (ERROR, ''Uncaught exception: '' @ err_message error) # rest)
   \<and> (\<exists>rest. log (env (emit JSON (UnhandledRejection reason) P)) =
       log (env P) @ (ERROR, ''Unhandled promise rejection: '' @ error_toString reason) # rest)
   \<and> (isShuttingDown (owner P) \<longrightarrow>
        emit JSON (UncaughtException error) P =
          P\<lparr>env := logger_error (''Uncaught exception: '' @ err_message error) (env P)\<rparr>
      \<and> emit JSON (UnhandledRejection reason) P =
          P\<lparr>env := logger_error (''Unhandled promise rejection: '' @ error_toString reason) (env P)\<rparr>)"
proof (cases "isShuttingDown (owner P)")
  case True
  then show ?thesis
    by (simp add: emit_def handleExit_def logger_error_def)
next
  case False
  have first: "\<exists>rest. log (env (emit JSON ev P)) = log (crash_entry ev (env P)) @ rest" for ev
  proof -
    let ?w = "logger_info (''Process '' @ cause ev @ ''. Saving progress...'') (crash_entry ev (env P))"
    obtain rest where "log (snd (saveProgress_start JSON (owner P) ?w)) = log ?w @ rest"
      using saveProgress_start_log [of JSON "owner P" ?w] by blast
    then have "log (env (emit JSON ev P)) =
        log (crash_entry ev (env P)) @ (INFO, ''Process '' @ cause ev @ ''. Saving progress...'') # rest"
      using False by (simp add: emit_active logger_info_def)
    then show ?thesis by blast
  qed
  from first [of "UncaughtException error"] first [of "UnhandledRejection reason"] False
  show ?thesis
    by (simp add: crash_entry_def logger_error_def)
qed

theorem crash_entry_precedes_guard_witness:
  "isShuttingDown (owner (emit JSON_boolean SIGINT demo_process))
   \<and> log (env (emit JSON_boolean (UncaughtException boom) (emit JSON_boolean SIGINT demo_process))) =
       log (env (emit JSON_boolean SIGINT demo_process)) @ [(ERROR, ''Uncaught exception: boom'')]
   \<and> save_calls (env (emit JSON_boolean (UncaughtException boom) (emit JSON_boolean SIGINT demo_process))) = 1
   \<and> exit_calls (env (emit JSON_boolean (UncaughtException boom) (emit JSON_boolean SIGINT demo_process))) = []
   \<and> suspended (emit JSON_boolean (UncaughtException boom) (emit JSON_boolean SIGINT demo_process)) =
       suspended (emit JSON_boolean SIGINT demo_process)"
proof -
  have h: "isShuttingDown (owner (emit JSON_boolean SIGINT demo_process))"
    by (simp add: runtime_defs class_defs demo_defs)
  have s: "save_calls (env (emit JSON_boolean SIGINT demo_process)) = 1"
    "exit_calls (env (emit JSON_boolean SIGINT demo_process)) = []"
    by (simp_all add: runtime_defs class_defs demo_defs)
  from h s crash_entry_precedes_guard
    [where JSON = JSON_boolean and P = "emit JSON_boolean SIGINT demo_process"
       and error = boom and reason = boom]
  show ?thesis
    by (simp add: logger_error_def boom_def)
qed

end
